theory Spec2Isabelle
  imports Main
begin

section \<open>Errors\<close>

text \<open>
  Every \<^verbatim>\<open>throw new Error(...)\<close> of the connectors, and every exception of the search
  client they call, is a value \<open>Error msg\<close> on the left of a sum. The connector's own
  messages are the texts handed to \<^verbatim>\<open>withUsage\<close> (which only appends a documentation
  link). \<open>TypeError msg\<close> is the exception the language raises when a value that is not
  a function is called.
\<close>

datatype error = Error string | TypeError string

section \<open>The query state of the external search client\<close>

text \<open>
  Modelled from the spec: the query-state object (\<^verbatim>\<open>SearchParameters\<close> of the external
  search client, spec sections 3 and 6) is not part of the sources. Its relevant fields are
  the conjunctive and disjunctive facet declarations, the per-attribute refinement values of
  both channels, and \<^verbatim>\<open>maxValuesPerFacet\<close>, which is a number or unset.
\<close>

record SearchParameters =
  facets :: "string list"
  disjunctiveFacets :: "string list"
  facetsRefinements :: "string \<rightharpoonup> string list"
  disjunctiveFacetsRefinements :: "string \<rightharpoonup> string list"
  maxValuesPerFacet :: "int option"

text \<open>
  Modelled from the spec: whether an attribute is declared on a channel.
\<close>

definition isConjunctiveFacet :: "SearchParameters \<Rightarrow> string \<Rightarrow> bool" where
  "isConjunctiveFacet sp facet = (facet \<in> set (facets sp))"

text \<open>
  Modelled from the spec: the same test on the disjunctive channel.
\<close>

definition isDisjunctiveFacet :: "SearchParameters \<Rightarrow> string \<Rightarrow> bool" where
  "isDisjunctiveFacet sp facet = (facet \<in> set (disjunctiveFacets sp))"

text \<open>
  Modelled from the spec: the accessor \<^verbatim>\<open>getConjunctiveRefinements\<close> reads the
  refinement values of an attribute on the conjunctive channel; an attribute that is not
  declared on the channel, or has no entry, reads as the empty sequence.
\<close>

definition getConjunctiveRefinements :: "SearchParameters \<Rightarrow> string \<Rightarrow> string list" where
  "getConjunctiveRefinements sp facetName =
     (if \<not> isConjunctiveFacet sp facetName then []
      else case facetsRefinements sp facetName of None \<Rightarrow> [] | Some vs \<Rightarrow> vs)"

text \<open>
  Modelled from the spec: the accessor \<^verbatim>\<open>getDisjunctiveRefinements\<close>, the same
  on the disjunctive channel.
\<close>

definition getDisjunctiveRefinements :: "SearchParameters \<Rightarrow> string \<Rightarrow> string list" where
  "getDisjunctiveRefinements sp facetName =
     (if \<not> isDisjunctiveFacet sp facetName then []
      else case disjunctiveFacetsRefinements sp facetName of None \<Rightarrow> [] | Some vs \<Rightarrow> vs)"

text \<open>
  Modelled from the spec: \<^verbatim>\<open>clearRefinements(attribute)\<close> clears any existing
  refinements for the attribute: the attribute's entry is dropped from the refinement maps
  of both channels.
\<close>

definition clearRefinements :: "SearchParameters \<Rightarrow> string \<Rightarrow> SearchParameters" where
  "clearRefinements sp attr =
     sp\<lparr>facetsRefinements := (facetsRefinements sp)(attr := None),
        disjunctiveFacetsRefinements := (disjunctiveFacetsRefinements sp)(attr := None)\<rparr>"

text \<open>
  Modelled from the spec: \<^verbatim>\<open>addFacet\<close> (re-)registers the attribute on the
  conjunctive channel; an attribute already declared there leaves the state as it is.
\<close>

definition addFacet :: "SearchParameters \<Rightarrow> string \<Rightarrow> SearchParameters" where
  "addFacet sp facet =
     (if isConjunctiveFacet sp facet then sp else sp\<lparr>facets := facets sp @ [facet]\<rparr>)"

text \<open>
  Modelled from the spec: \<^verbatim>\<open>addDisjunctiveFacet\<close>, the same on the disjunctive
  channel.
\<close>

definition addDisjunctiveFacet :: "SearchParameters \<Rightarrow> string \<Rightarrow> SearchParameters" where
  "addDisjunctiveFacet sp facet =
     (if isDisjunctiveFacet sp facet then sp
      else sp\<lparr>disjunctiveFacets := disjunctiveFacets sp @ [facet]\<rparr>)"

text \<open>
  Modelled from the spec: whether a value is among the refinement values of an attribute
  in one channel's refinement map.
\<close>

definition RefinementList_isRefined :: "(string \<rightharpoonup> string list) \<Rightarrow> string \<Rightarrow> string \<Rightarrow> bool" where
  "RefinementList_isRefined refinementList attr v =
     (case refinementList attr of None \<Rightarrow> False | Some vs \<Rightarrow> v \<in> set vs)"

text \<open>
  Modelled from the spec: adding a value to an attribute's entry of a refinement map.
  The value is appended to the attribute's values unless it is already among them.
\<close>

definition RefinementList_addRefinement ::
  "(string \<rightharpoonup> string list) \<Rightarrow> string \<Rightarrow> string \<Rightarrow> (string \<rightharpoonup> string list)" where
  "RefinementList_addRefinement refinementList attr v =
     (if RefinementList_isRefined refinementList attr v then refinementList
      else refinementList(attr \<mapsto>
             (case refinementList attr of None \<Rightarrow> [v] | Some vs \<Rightarrow> vs @ [v])))"

text \<open>
  Modelled from the spec: \<^verbatim>\<open>addFacetRefinement\<close>, the "add refinement" operation
  of the conjunctive channel; refining an attribute that is not declared on the channel is
  an error of the search client.
\<close>

definition addFacetRefinement :: "SearchParameters \<Rightarrow> string \<Rightarrow> string \<Rightarrow> error + SearchParameters" where
  "addFacetRefinement sp facet v =
     (if \<not> isConjunctiveFacet sp facet
      then Inl (Error (facet @ '' is not defined in the facets attribute of the helper configuration''))
      else Inr (sp\<lparr>facetsRefinements :=
                    RefinementList_addRefinement (facetsRefinements sp) facet v\<rparr>))"

text \<open>
  Modelled from the spec: \<^verbatim>\<open>addDisjunctiveFacetRefinement\<close>, the same on the
  disjunctive channel.
\<close>

definition addDisjunctiveFacetRefinement ::
  "SearchParameters \<Rightarrow> string \<Rightarrow> string \<Rightarrow> error + SearchParameters" where
  "addDisjunctiveFacetRefinement sp facet v =
     (if \<not> isDisjunctiveFacet sp facet
      then Inl (Error (facet @ '' is not defined in the disjunctiveFacets attribute of the helper configuration''))
      else Inr (sp\<lparr>disjunctiveFacetsRefinements :=
                    RefinementList_addRefinement (disjunctiveFacetsRefinements sp) facet v\<rparr>))"

text \<open>
  Modelled from the spec: \<^verbatim>\<open>removeFacet\<close> removes the attribute from the
  conjunctive declarations (with its refinements); an attribute that was never registered
  on that channel leaves the state as it is.
\<close>

definition removeFacet :: "SearchParameters \<Rightarrow> string \<Rightarrow> SearchParameters" where
  "removeFacet sp facet =
     (if \<not> isConjunctiveFacet sp facet then sp
      else (clearRefinements sp facet)\<lparr>facets := filter (\<lambda>f. f \<noteq> facet) (facets sp)\<rparr>)"

text \<open>
  Modelled from the spec: \<^verbatim>\<open>removeDisjunctiveFacet\<close>, the same on the disjunctive
  channel.
\<close>

definition removeDisjunctiveFacet :: "SearchParameters \<Rightarrow> string \<Rightarrow> SearchParameters" where
  "removeDisjunctiveFacet sp facet =
     (if \<not> isDisjunctiveFacet sp facet then sp
      else (clearRefinements sp facet)
             \<lparr>disjunctiveFacets := filter (\<lambda>f. f \<noteq> facet) (disjunctiveFacets sp)\<rparr>)"

text \<open>
  Modelled from the spec: \<^verbatim>\<open>setQueryParameter('maxValuesPerFacet', v)\<close> writes the
  field; the value \<^verbatim>\<open>undefined\<close> (\<open>None\<close>) leaves it unset.
\<close>

definition setQueryParameter_maxValuesPerFacet ::
  "SearchParameters \<Rightarrow> int option \<Rightarrow> SearchParameters" where
  "setQueryParameter_maxValuesPerFacet sp v = sp\<lparr>maxValuesPerFacet := v\<rparr>"

text \<open>
  Modelled from the spec: \<^verbatim>\<open>setQueryParameters({facetsRefinements: m})\<close> replaces
  the refinement map of the conjunctive channel.
\<close>

definition setQueryParameters_facetsRefinements ::
  "SearchParameters \<Rightarrow> (string \<rightharpoonup> string list) \<Rightarrow> SearchParameters" where
  "setQueryParameters_facetsRefinements sp m = sp\<lparr>facetsRefinements := m\<rparr>"

text \<open>
  Modelled from the spec: \<^verbatim>\<open>setQueryParameters({disjunctiveFacetsRefinements: m})\<close>
  replaces the refinement map of the disjunctive channel.
\<close>

definition setQueryParameters_disjunctiveFacetsRefinements ::
  "SearchParameters \<Rightarrow> (string \<rightharpoonup> string list) \<Rightarrow> SearchParameters" where
  "setQueryParameters_disjunctiveFacetsRefinements sp m = sp\<lparr>disjunctiveFacetsRefinements := m\<rparr>"

section \<open>The UI state\<close>

text \<open>
  The serializable UI state: \<^verbatim>\<open>refinementList\<close> maps an attribute to its refined
  values, \<^verbatim>\<open>configure\<close> holds raw parameters (of any value type \<open>'v\<close>). Either entry may
  be missing (\<^verbatim>\<open>undefined\<close>). Every other entry of the object is the record's extension.
\<close>

record 'v UiState =
  refinementList :: "(string \<rightharpoonup> string list) option"
  configure :: "(string \<rightharpoonup> 'v) option"

text \<open>
  The property read \<^verbatim>\<open>obj[key]\<close> on the \<^verbatim>\<open>refinementList\<close> object. The map holds the
  object's own keys. The object is an ordinary one (an object literal, as
  \<^verbatim>\<open>getWidgetState\<close> builds it, or parsed JSON), so a key that is not an own key is looked
  up in \<^verbatim>\<open>Object.prototype\<close>: for the names of its members the read gives the inherited
  function (or, for \<^verbatim>\<open>__proto__\<close>, the prototype object), a truthy value that is not an
  array and has no \<^verbatim>\<open>reduce\<close>; for every other name it gives \<^verbatim>\<open>undefined\<close>.
\<close>

datatype property = Undefined | Array "string list" | Inherited

definition Object_prototype_members :: "string list" where
  "Object_prototype_members =
     [''constructor'', ''__defineGetter__'', ''__defineSetter__'', ''hasOwnProperty'',
      ''__lookupGetter__'', ''__lookupSetter__'', ''isPrototypeOf'', ''propertyIsEnumerable'',
      ''toString'', ''valueOf'', ''__proto__'', ''toLocaleString'']"

definition getProperty :: "(string \<rightharpoonup> string list) \<Rightarrow> string \<Rightarrow> property" where
  "getProperty obj key =
     (case obj key of
        Some vs \<Rightarrow> Array vs
      | None \<Rightarrow> if key \<in> set Object_prototype_members then Inherited else Undefined)"

section \<open>The refinement-list connector: construction\<close>

text \<open>Facet values of the primary search, the hits of a facet sub-search, rendered items.\<close>

record FacetValue =
  name :: string
  count :: int
  isRefined :: bool

record FacetHit =
  hit_value :: string
  hit_highlighted :: string
  hit_count :: int
  hit_isRefined :: "bool option"

record RefinementListItem =
  item_label :: string
  item_value :: string
  item_highlighted :: string
  item_count :: int
  item_isRefined :: "bool option"

text \<open>
  The options object handed to the widget factory. A missing option is \<open>None\<close>;
  \<^verbatim>\<open>sortBy\<close> is only passed on to the search results and is not modelled.
\<close>

record WidgetParams =
  wp_attribute :: "string option"
  wp_operator :: "string option"
  wp_limit :: "int option"
  wp_showMore :: "bool option"
  wp_showMoreLimit :: "int option"
  wp_escapeFacetValues :: "bool option"
  wp_transformItems :: "(RefinementListItem list \<Rightarrow> RefinementListItem list) option"

text \<open>The destructured options with their defaults: what the widget's closures see.\<close>

record Connector =
  attribute :: string
  operator :: string
  limit :: int
  showMore :: bool
  showMoreLimit :: int
  escapeFacetValues :: bool
  transformItems :: "RefinementListItem list \<Rightarrow> RefinementListItem list"

definition withDefault :: "'a option \<Rightarrow> 'a \<Rightarrow> 'a" where
  "withDefault v d = (case v of None \<Rightarrow> d | Some x \<Rightarrow> x)"

definition destructure :: "WidgetParams \<Rightarrow> Connector" where
  "destructure widgetParams =
     \<lparr>attribute = withDefault (wp_attribute widgetParams) [],
      operator = withDefault (wp_operator widgetParams) ''or'',
      limit = withDefault (wp_limit widgetParams) 10,
      showMore = withDefault (wp_showMore widgetParams) False,
      showMoreLimit = withDefault (wp_showMoreLimit widgetParams) 20,
      escapeFacetValues = withDefault (wp_escapeFacetValues widgetParams) True,
      transformItems = withDefault (wp_transformItems widgetParams) (\<lambda>items. items)\<rparr>"

text \<open>
  \<^verbatim>\<open>!attribute\<close>: a string is falsy when it is missing or empty.
  \<^verbatim>\<open>/^(and|or)$/.test(operator)\<close>: the whole string is \<^verbatim>\<open>and\<close> or \<^verbatim>\<open>or\<close>.
\<close>

definition falsy :: "string option \<Rightarrow> bool" where
  "falsy s = (case s of None \<Rightarrow> True | Some v \<Rightarrow> v = [])"

definition operator_matches :: "string \<Rightarrow> bool" where
  "operator_matches op = (op = ''and'' \<or> op = ''or'')"

definition connectRefinementList :: "WidgetParams \<Rightarrow> error + Connector" where
  \<open>connectRefinementList widgetParams =
     (let c = destructure widgetParams in
      if falsy (wp_attribute widgetParams)
      then Inl (Error ''The `attribute` option is required.'')
      else if \<not> operator_matches (operator c)
      then Inl (Error (''The `operator` must one of: `"and"`, `"or"` (got "'' @ operator c @ ''").''))
      else if showMore c = True \<and> showMoreLimit c \<le> limit c
      then Inl (Error ''`showMoreLimit` should be greater than `limit`.'')
      else Inr c)\<close>

section \<open>The refinement-list connector: projection between query state and UI state\<close>

definition getWidgetState ::
  "Connector \<Rightarrow> ('v, 'z) UiState_scheme \<Rightarrow> SearchParameters \<Rightarrow> ('v, 'z) UiState_scheme" where
  "getWidgetState c uiState searchParameters =
     (let values =
            (if operator c = ''or''
             then getDisjunctiveRefinements searchParameters (attribute c)
             else getConjunctiveRefinements searchParameters (attribute c))
      in if length values = 0 then uiState
         else uiState\<lparr>refinementList :=
                Some ((case refinementList uiState of None \<Rightarrow> Map.empty | Some m \<Rightarrow> m)
                        (attribute c \<mapsto> values))\<rparr>)"

text \<open>
  \<^verbatim>\<open>values.reduce(...)\<close>: a left fold that stops at the first exception of the search
  client.
\<close>

fun reduce_refinements ::
  "bool \<Rightarrow> string \<Rightarrow> string list \<Rightarrow> SearchParameters \<Rightarrow> error + SearchParameters" where
  "reduce_refinements isDisjunctive attr [] parameters = Inr parameters"
| "reduce_refinements isDisjunctive attr (v # vs) parameters =
     (case (if isDisjunctive
            then addDisjunctiveFacetRefinement parameters attr v
            else addFacetRefinement parameters attr v) of
        Inl e \<Rightarrow> Inl e
      | Inr parameters' \<Rightarrow> reduce_refinements isDisjunctive attr vs parameters')"

text \<open>
  \<^verbatim>\<open>uiState.refinementList && uiState.refinementList[attribute]\<close>: the constant
  \<^verbatim>\<open>values\<close> of \<^verbatim>\<open>getWidgetSearchParameters\<close>.
\<close>

definition readValues :: "Connector \<Rightarrow> ('v, 'z) UiState_scheme \<Rightarrow> property" where
  "readValues c uiState =
     (case refinementList uiState of
        None \<Rightarrow> Undefined
      | Some obj \<Rightarrow> getProperty obj (attribute c))"

text \<open>
  \<^verbatim>\<open>!values\<close> holds for \<^verbatim>\<open>undefined\<close> only: an array (also the empty one) and an
  inherited member are truthy and reach \<^verbatim>\<open>values.reduce(...)\<close>, which an inherited member
  does not have, so that calling it raises a \<^verbatim>\<open>TypeError\<close>.
\<close>

definition getWidgetSearchParameters ::
  "Connector \<Rightarrow> SearchParameters \<Rightarrow> ('v, 'z) UiState_scheme \<Rightarrow> error + SearchParameters" where
  "getWidgetSearchParameters c searchParameters uiState =
     (let isDisjunctive = (operator c = ''or'');
          values = readValues c uiState;
          withoutRefinements = clearRefinements searchParameters (attribute c);
          withFacetConfiguration =
            (if isDisjunctive
             then addDisjunctiveFacet withoutRefinements (attribute c)
             else addFacet withoutRefinements (attribute c));
          currentMaxValuesPerFacet =
            (case maxValuesPerFacet withFacetConfiguration of None \<Rightarrow> 0 | Some m \<Rightarrow> m);
          nextMaxValuesPerFacet =
            max currentMaxValuesPerFacet (if showMore c then showMoreLimit c else limit c);
          withMaxValuesPerFacet =
            setQueryParameter_maxValuesPerFacet withFacetConfiguration
              (Some nextMaxValuesPerFacet)
      in case values of
           Undefined \<Rightarrow>
             Inr (if isDisjunctive
                  then setQueryParameters_disjunctiveFacetsRefinements withMaxValuesPerFacet
                         ((disjunctiveFacetsRefinements withMaxValuesPerFacet)
                            (attribute c \<mapsto> []))
                  else setQueryParameters_facetsRefinements withMaxValuesPerFacet
                         ((facetsRefinements withMaxValuesPerFacet)(attribute c \<mapsto> [])))
         | Array vs \<Rightarrow> reduce_refinements isDisjunctive (attribute c) vs withMaxValuesPerFacet
         | Inherited \<Rightarrow> Inl (TypeError ''values.reduce is not a function''))"

text \<open>
  The refinement values of the connector's attribute on the channel its operator selects,
  as \<^verbatim>\<open>getWidgetState\<close> reads them.
\<close>

definition channelRefinements :: "Connector \<Rightarrow> SearchParameters \<Rightarrow> string list" where
  "channelRefinements c sp =
     (if operator c = ''or''
      then getDisjunctiveRefinements sp (attribute c)
      else getConjunctiveRefinements sp (attribute c))"

text \<open>The raw refinement map of the channel the operator selects.\<close>

definition channelRefinementsMap :: "Connector \<Rightarrow> SearchParameters \<Rightarrow> (string \<rightharpoonup> string list)" where
  "channelRefinementsMap c sp =
     (if operator c = ''or'' then disjunctiveFacetsRefinements sp else facetsRefinements sp)"

section \<open>The refinement-list connector: widget state and rendering\<close>

text \<open>
  The two constant tag pairs and \<^verbatim>\<open>escapeFacets\<close> come from the escaping utilities,
  which are not part of the sources: they are parameters of the model.
\<close>

record Tags =
  highlightPreTag :: string
  highlightPostTag :: string

record EscapeHighlight =
  TAG_PLACEHOLDER :: Tags
  TAG_REPLACEMENT :: Tags
  escapeFacets :: "FacetHit list \<Rightarrow> FacetHit list"

text \<open>
  What the widget's \<^verbatim>\<open>render\<close> method reads from its argument: the facet values the
  results hold for an attribute (already sorted by \<^verbatim>\<open>sortBy\<close>; \<open>None\<close> when the results
  have none) and the query state.
\<close>

record RenderOptions =
  results_getFacetValues :: "string \<Rightarrow> FacetValue list option"
  state :: SearchParameters

text \<open>
  The data of the payload handed to the rendering callback. Its function-valued entries
  (\<^verbatim>\<open>refine\<close>, \<^verbatim>\<open>createURL\<close>, \<^verbatim>\<open>searchForItems\<close>, \<^verbatim>\<open>toggleShowMore\<close>) are the
  operations of this section.
\<close>

record RenderingOptions =
  p_items :: "RefinementListItem list"
  p_isFromSearch :: bool
  p_canRefine :: bool
  p_isShowingMore :: bool
  p_canToggleShowMore :: bool
  p_hasExhaustiveItems :: bool

text \<open>
  The effects of a widget on the outside, in order: a call of the rendering callback (with
  \<^verbatim>\<open>isFirstSearch\<close>), a facet sub-search issued to the search client with
  (attribute, query, limit, tags), a call of the unmount hook.
\<close>

datatype event =
    RenderFn RenderingOptions bool
  | SearchForFacetValues string string int Tags
  | UnmountFn

text \<open>
  The mutable variables the widget's closures share: the cache of the last primary search,
  the exhaustiveness flag, the paginator's mode and its recorded render, and the trace of
  effects.
\<close>

record Widget =
  lastResultsFromMainSearch :: "RefinementListItem list"
  hasExhaustiveItems :: bool
  showingMore :: bool
  lastRender :: "RenderOptions option"
  events :: "event list"

definition newWidget :: Widget where
  "newWidget =
     \<lparr>lastResultsFromMainSearch = [], hasExhaustiveItems = True, showingMore = False,
      lastRender = None, events = []\<rparr>"

text \<open>
  Modelled from the spec: the show-more paginator (\<^verbatim>\<open>createShowMore\<close>, spec section 4.3)
  is not part of the sources. \<^verbatim>\<open>getIsShowingMore\<close> tells whether the mode is expanded.
\<close>

definition getIsShowingMore :: "Widget \<Rightarrow> bool" where
  "getIsShowingMore w = showingMore w"

text \<open>
  Modelled from the spec: \<^verbatim>\<open>getCurrentLimit\<close> of the paginator is \<^verbatim>\<open>limit\<close> in base
  mode and \<^verbatim>\<open>showMoreLimit\<close> in expanded mode.
\<close>

definition getCurrentLimit :: "Connector \<Rightarrow> Widget \<Rightarrow> int" where
  "getCurrentLimit c w = (if showingMore w then showMoreLimit c else limit c)"

text \<open>
  Modelled from the spec: \<^verbatim>\<open>setToggleShowMore\<close> of the paginator records the most
  recent render invocation.
\<close>

definition setToggleShowMore :: "RenderOptions \<Rightarrow> Widget \<Rightarrow> Widget" where
  "setToggleShowMore renderOptions w = w\<lparr>lastRender := Some renderOptions\<rparr>"

text \<open>\<^verbatim>\<open>xs.slice(0, n)\<close>: a negative end counts from the end of the array.\<close>

definition slice0 :: "'a list \<Rightarrow> int \<Rightarrow> 'a list" where
  "slice0 xs n = (if 0 \<le> n then take (nat n) xs else take (length xs - nat (- n)) xs)"

definition formatItems :: "FacetValue \<Rightarrow> RefinementListItem" where
  "formatItems fv =
     \<lparr>item_label = name fv, item_value = name fv, item_highlighted = name fv,
      item_count = count fv, item_isRefined = Some (isRefined fv)\<rparr>"

text \<open>
  The inner \<^verbatim>\<open>render\<close> closure: builds the payload and calls the rendering callback.
  \<open>canShowLess\<close> and \<open>canShowMore\<close> are its two local constants.
\<close>

definition canShowLess :: "Connector \<Rightarrow> Widget \<Rightarrow> bool" where
  "canShowLess c w =
     (getIsShowingMore w \<and> limit c < int (length (lastResultsFromMainSearch w)))"

definition canShowMore :: "Connector \<Rightarrow> bool \<Rightarrow> Widget \<Rightarrow> bool" where
  "canShowMore c isFromSearch w = (showMore c \<and> \<not> isFromSearch \<and> \<not> hasExhaustiveItems w)"

definition render ::
  "Connector \<Rightarrow> RefinementListItem list \<Rightarrow> bool \<Rightarrow> bool \<Rightarrow> Widget \<Rightarrow> Widget" where
  "render c items isFromSearch isFirstSearch w =
     (let isShowingMore = getIsShowingMore w;
          canToggleShowMore = (canShowLess c w \<or> canShowMore c isFromSearch w)
      in w\<lparr>events := events w @
            [RenderFn
               \<lparr>p_items = items, p_isFromSearch = isFromSearch,
                p_canRefine = (isFromSearch \<or> 0 < length items),
                p_isShowingMore = isShowingMore,
                p_canToggleShowMore = canToggleShowMore,
                p_hasExhaustiveItems = hasExhaustiveItems w\<rparr>
               isFirstSearch]\<rparr>)"

text \<open>
  The closure built by \<^verbatim>\<open>createSearchForFacetValues\<close>, called with a query. The cache is
  always an array, hence truthy, so the first branch is taken exactly for the empty query.
  The promise's continuation is \<open>searchForFacetValues_then\<close>, run when the search client
  delivers the hits.
\<close>

definition searchForItems :: "Connector \<Rightarrow> EscapeHighlight \<Rightarrow> string \<Rightarrow> Widget \<Rightarrow> Widget" where
  "searchForItems c eh query w =
     (if query = [] then render c (lastResultsFromMainSearch w) False False w
      else
        let tags =
              \<lparr>highlightPreTag =
                 (if escapeFacetValues c then highlightPreTag (TAG_PLACEHOLDER eh)
                  else highlightPreTag (TAG_REPLACEMENT eh)),
               highlightPostTag =
                 (if escapeFacetValues c then highlightPostTag (TAG_PLACEHOLDER eh)
                  else highlightPostTag (TAG_REPLACEMENT eh))\<rparr>
        in w\<lparr>events := events w @
              [SearchForFacetValues (attribute c) query (getCurrentLimit c w) tags]\<rparr>)"

definition normalizeFacetHit :: "FacetHit \<Rightarrow> RefinementListItem" where
  "normalizeFacetHit h =
     \<lparr>item_label = hit_value h, item_value = hit_value h,
      item_highlighted = hit_highlighted h, item_count = hit_count h,
      item_isRefined = hit_isRefined h\<rparr>"

definition searchForFacetValues_then ::
  "Connector \<Rightarrow> EscapeHighlight \<Rightarrow> FacetHit list \<Rightarrow> Widget \<Rightarrow> Widget" where
  "searchForFacetValues_then c eh facetHits w =
     (let facetValues = (if escapeFacetValues c then escapeFacets eh facetHits else facetHits);
          normalizedFacetValues = transformItems c (map normalizeFacetHit facetValues)
      in render c normalizedFacetValues True False w)"

text \<open>The widget's \<^verbatim>\<open>init\<close> and \<^verbatim>\<open>render\<close> methods.\<close>

definition widget_init :: "Connector \<Rightarrow> Widget \<Rightarrow> Widget" where
  "widget_init c w = render c [] False True w"

definition js_gt :: "int option \<Rightarrow> int \<Rightarrow> bool" where
  "js_gt a b = (case a of None \<Rightarrow> False | Some x \<Rightarrow> b < x)"

text \<open>\<^verbatim>\<open>results.getFacetValues(attribute, { sortBy }) || []\<close>\<close>

definition facetValuesOf :: "Connector \<Rightarrow> RenderOptions \<Rightarrow> FacetValue list" where
  "facetValuesOf c renderOptions =
     (case results_getFacetValues renderOptions (attribute c) of
        None \<Rightarrow> [] | Some fvs \<Rightarrow> fvs)"

definition widget_render :: "Connector \<Rightarrow> RenderOptions \<Rightarrow> Widget \<Rightarrow> Widget" where
  "widget_render c renderOptions w =
     (let w1 = setToggleShowMore renderOptions w;
          currentLimit = getCurrentLimit c w1;
          facetValues = facetValuesOf c renderOptions;
          items = transformItems c (map formatItems (slice0 facetValues currentLimit));
          maxValuesPerFacetConfig = maxValuesPerFacet (state renderOptions);
          w2 = w1\<lparr>hasExhaustiveItems :=
                   (if js_gt maxValuesPerFacetConfig currentLimit
                    then int (length facetValues) \<le> currentLimit
                    else int (length facetValues) < currentLimit)\<rparr>;
          w3 = w2\<lparr>lastResultsFromMainSearch := items\<rparr>
      in render c items False False w3)"

text \<open>
  Modelled from the spec: \<^verbatim>\<open>toggleShowMore\<close> of the paginator (spec section 4.3) flips
  the mode and re-invokes the most recently recorded render with its original arguments.
  The spec does not say what it does before any render was recorded; the model then leaves
  the widget as it is.
\<close>

definition toggleShowMore :: "Connector \<Rightarrow> Widget \<Rightarrow> Widget" where
  "toggleShowMore c w =
     (case lastRender w of
        None \<Rightarrow> w
      | Some renderOptions \<Rightarrow> widget_render c renderOptions (w\<lparr>showingMore := \<not> showingMore w\<rparr>))"

text \<open>
  \<^verbatim>\<open>dispose\<close>: calls the unmount hook, then strips the widget's contributions from the
  query state. No step of it has an error branch.
\<close>

definition dispose :: "Connector \<Rightarrow> SearchParameters \<Rightarrow> Widget \<Rightarrow> SearchParameters \<times> Widget" where
  "dispose c st w =
     (let w' = w\<lparr>events := events w @ [UnmountFn]\<rparr>;
          withoutMaxValuesPerFacet = setQueryParameter_maxValuesPerFacet st None
      in if operator c = ''and''
         then (removeFacet withoutMaxValuesPerFacet (attribute c), w')
         else (removeDisjunctiveFacet withoutMaxValuesPerFacet (attribute c), w'))"

section \<open>The configure connector\<close>

text \<open>
  The stored widget parameters: \<^verbatim>\<open>widgetParams.searchParameters\<close>, a plain object of
  arbitrary query parameters.
\<close>

record 'v ConfigureConnectorParams =
  searchParameters :: "string \<rightharpoonup> 'v"

text \<open>
  The object \<^verbatim>\<open>{...uiState.configure, ...widgetParams.searchParameters}\<close> built by both
  projector methods: the later spread overrides the earlier one key by key, and spreading
  \<^verbatim>\<open>undefined\<close> adds nothing.
\<close>

definition configure_spread ::
  "'v ConfigureConnectorParams \<Rightarrow> ('v, 'z) UiState_scheme \<Rightarrow> (string \<rightharpoonup> 'v)" where
  "configure_spread widgetParams uiState =
     (case configure uiState of None \<Rightarrow> Map.empty | Some m \<Rightarrow> m) ++ searchParameters widgetParams"

definition configure_getWidgetState ::
  "'v ConfigureConnectorParams \<Rightarrow> ('v, 'z) UiState_scheme \<Rightarrow> ('v, 'z) UiState_scheme" where
  "configure_getWidgetState widgetParams uiState =
     uiState\<lparr>configure := Some (configure_spread widgetParams uiState)\<rparr>"

text \<open>
  \<^verbatim>\<open>mergeSearchParameters\<close> and the constructor of the search client's query state are not
  part of the sources: they are parameters of the model.
\<close>

definition configure_getWidgetSearchParameters ::
  "('s \<Rightarrow> 'p \<Rightarrow> 's) \<Rightarrow> ((string \<rightharpoonup> 'v) \<Rightarrow> 'p) \<Rightarrow> 'v ConfigureConnectorParams \<Rightarrow> 's \<Rightarrow>
   ('v, 'z) UiState_scheme \<Rightarrow> 's" where
  "configure_getWidgetSearchParameters mergeSearchParameters newSearchParameters
     widgetParams st uiState =
     mergeSearchParameters st (newSearchParameters (configure_spread widgetParams uiState))"

section \<open>Auxiliary definitions and concrete inputs\<close>

text \<open>
  The constant \<^verbatim>\<open>withMaxValuesPerFacet\<close> of \<^verbatim>\<open>getWidgetSearchParameters\<close>: the query
  state after clearing, registering the facet and writing \<^verbatim>\<open>maxValuesPerFacet\<close>, from
  which either branch continues.
\<close>

definition withMaxValuesPerFacet :: "Connector \<Rightarrow> SearchParameters \<Rightarrow> SearchParameters" where
  "withMaxValuesPerFacet c sp =
     (let withoutRefinements = clearRefinements sp (attribute c);
          withFacetConfiguration =
            (if operator c = ''or''
             then addDisjunctiveFacet withoutRefinements (attribute c)
             else addFacet withoutRefinements (attribute c))
      in setQueryParameter_maxValuesPerFacet withFacetConfiguration
           (Some (max (case maxValuesPerFacet withFacetConfiguration of None \<Rightarrow> 0 | Some m \<Rightarrow> m)
                      (if showMore c then showMoreLimit c else limit c))))"

text \<open>The values an array read holds; no values for any other read.\<close>

definition valuesOf :: "property \<Rightarrow> string list" where
  "valuesOf v = (case v of Array vs \<Rightarrow> vs | Undefined \<Rightarrow> [] | Inherited \<Rightarrow> [])"

text \<open>
  The scenario of the spec: attribute \<^verbatim>\<open>brand\<close>, \<^verbatim>\<open>limit = 2\<close>, \<^verbatim>\<open>showMore = true\<close>,
  \<^verbatim>\<open>showMoreLimit = 5\<close>, and a primary result with three facet values.
\<close>

definition scenario_widgetParams :: WidgetParams where
  "scenario_widgetParams =
     \<lparr>wp_attribute = Some ''brand'', wp_operator = None, wp_limit = Some 2,
      wp_showMore = Some True, wp_showMoreLimit = Some 5, wp_escapeFacetValues = None,
      wp_transformItems = None\<rparr>"

definition scenario_connector :: Connector where
  "scenario_connector = destructure scenario_widgetParams"

definition scenario_state :: SearchParameters where
  "scenario_state =
     \<lparr>facets = [], disjunctiveFacets = [''brand''], facetsRefinements = Map.empty,
      disjunctiveFacetsRefinements = Map.empty, maxValuesPerFacet = Some 5\<rparr>"

definition scenario_facetValues :: "FacetValue list" where
  "scenario_facetValues =
     [\<lparr>name = ''Apple'', count = 10, isRefined = False\<rparr>,
      \<lparr>name = ''Samsung'', count = 5, isRefined = False\<rparr>,
      \<lparr>name = ''Sony'', count = 3, isRefined = False\<rparr>]"

definition scenario_renderOptions :: RenderOptions where
  "scenario_renderOptions =
     \<lparr>results_getFacetValues = (\<lambda>a. if a = ''brand'' then Some scenario_facetValues else None),
      state = scenario_state\<rparr>"

definition scenario_rendered :: Widget where
  "scenario_rendered =
     widget_render scenario_connector scenario_renderOptions
       (widget_init scenario_connector newWidget)"

definition scenario_toggled :: Widget where
  "scenario_toggled = toggleShowMore scenario_connector scenario_rendered"

text \<open>Further inputs: a conjunctive connector, query states, UI states, tag constants.\<close>

definition and_connector :: Connector where
  "and_connector =
     destructure
       \<lparr>wp_attribute = Some ''brand'', wp_operator = Some ''and'', wp_limit = None,
        wp_showMore = None, wp_showMoreLimit = None, wp_escapeFacetValues = None,
        wp_transformItems = None\<rparr>"

definition capped_renderOptions :: "FacetValue list \<Rightarrow> RenderOptions" where
  "capped_renderOptions fvs =
     \<lparr>results_getFacetValues = (\<lambda>a. if a = ''brand'' then Some fvs else None),
      state = scenario_state\<lparr>maxValuesPerFacet := Some 2\<rparr>\<rparr>"

definition unrefined_state :: SearchParameters where
  "unrefined_state =
     \<lparr>facets = [], disjunctiveFacets = [''brand''], facetsRefinements = Map.empty,
      disjunctiveFacetsRefinements = Map.empty, maxValuesPerFacet = None\<rparr>"

definition refined_state :: SearchParameters where
  "refined_state =
     \<lparr>facets = [''color''], disjunctiveFacets = [''brand''],
      facetsRefinements = [''color'' \<mapsto> [''red'']],
      disjunctiveFacetsRefinements = [''brand'' \<mapsto> [''Apple'', ''Sony'']],
      maxValuesPerFacet = Some 7\<rparr>"

definition empty_uiState :: "string UiState" where
  "empty_uiState = \<lparr>refinementList = None, configure = None\<rparr>"

definition stale_uiState :: "string UiState" where
  "stale_uiState = \<lparr>refinementList = Some [''brand'' \<mapsto> [''Apple'']], configure = None\<rparr>"

definition cleared_uiState :: "string UiState" where
  "cleared_uiState = \<lparr>refinementList = Some [''brand'' \<mapsto> []], configure = None\<rparr>"

definition other_uiState :: "string UiState" where
  "other_uiState =
     \<lparr>refinementList = Some [''color'' \<mapsto> [''red'']],
      configure = Some [''hitsPerPage'' \<mapsto> ''5'']\<rparr>"

text \<open>
  A connector on an attribute named \<^verbatim>\<open>constructor\<close>, and a UI state whose
  \<^verbatim>\<open>refinementList\<close> object has no own key.
\<close>

definition constructor_widgetParams :: WidgetParams where
  "constructor_widgetParams =
     \<lparr>wp_attribute = Some ''constructor'', wp_operator = None, wp_limit = None,
      wp_showMore = None, wp_showMoreLimit = None, wp_escapeFacetValues = None,
      wp_transformItems = None\<rparr>"

definition constructor_connector :: Connector where
  "constructor_connector = destructure constructor_widgetParams"

definition keyless_uiState :: "string UiState" where
  "keyless_uiState = \<lparr>refinementList = Some Map.empty, configure = None\<rparr>"

definition example_escapeHighlight :: EscapeHighlight where
  "example_escapeHighlight =
     \<lparr>TAG_PLACEHOLDER =
        \<lparr>highlightPreTag = ''__ais-highlight__'', highlightPostTag = ''__/ais-highlight__''\<rparr>,
      TAG_REPLACEMENT = \<lparr>highlightPreTag = ''<mark>'', highlightPostTag = ''</mark>''\<rparr>,
      escapeFacets = (\<lambda>hits. hits)\<rparr>"

definition example_configureParams :: "string ConfigureConnectorParams" where
  "example_configureParams =
     \<lparr>searchParameters = [''hitsPerPage'' \<mapsto> ''20'', ''analytics'' \<mapsto> ''true'']\<rparr>"

section \<open>Evaluation rules and lemmas on the projector\<close>

lemmas helper_defs = isConjunctiveFacet_def isDisjunctiveFacet_def getConjunctiveRefinements_def
  getDisjunctiveRefinements_def clearRefinements_def addFacet_def addDisjunctiveFacet_def
  RefinementList_isRefined_def RefinementList_addRefinement_def addFacetRefinement_def
  addDisjunctiveFacetRefinement_def removeFacet_def removeDisjunctiveFacet_def
  setQueryParameter_maxValuesPerFacet_def setQueryParameters_facetsRefinements_def
  setQueryParameters_disjunctiveFacetsRefinements_def

lemmas widget_defs = widget_render_def widget_init_def toggleShowMore_def render_def
  setToggleShowMore_def getCurrentLimit_def getIsShowingMore_def canShowLess_def canShowMore_def
  js_gt_def slice0_def newWidget_def facetValuesOf_def formatItems_def Let_def

lemmas scenario_defs = scenario_widgetParams_def scenario_connector_def scenario_state_def
  scenario_facetValues_def scenario_renderOptions_def scenario_rendered_def
  scenario_toggled_def and_connector_def capped_renderOptions_def
  constructor_widgetParams_def constructor_connector_def destructure_def withDefault_def

lemmas state_defs = unrefined_state_def refined_state_def empty_uiState_def stale_uiState_def
  cleared_uiState_def other_uiState_def keyless_uiState_def

lemmas read_defs = readValues_def getProperty_def Object_prototype_members_def valuesOf_def

lemma addFacetRefinement_declared:
  assumes "isConjunctiveFacet p a"
  shows "\<exists>p'. addFacetRefinement p a v = Inr p' \<and> facets p' = facets p \<and>
           disjunctiveFacets p' = disjunctiveFacets p \<and>
           maxValuesPerFacet p' = maxValuesPerFacet p \<and>
           set (getConjunctiveRefinements p' a) = insert v (set (getConjunctiveRefinements p a))"
  using assms
  by (auto simp: addFacetRefinement_def getConjunctiveRefinements_def isConjunctiveFacet_def
      RefinementList_addRefinement_def RefinementList_isRefined_def split: option.splits)

lemma addDisjunctiveFacetRefinement_declared:
  assumes "isDisjunctiveFacet p a"
  shows "\<exists>p'. addDisjunctiveFacetRefinement p a v = Inr p' \<and> facets p' = facets p \<and>
           disjunctiveFacets p' = disjunctiveFacets p \<and>
           maxValuesPerFacet p' = maxValuesPerFacet p \<and>
           set (getDisjunctiveRefinements p' a) = insert v (set (getDisjunctiveRefinements p a))"
  using assms
  by (auto simp: addDisjunctiveFacetRefinement_def getDisjunctiveRefinements_def
      isDisjunctiveFacet_def RefinementList_addRefinement_def RefinementList_isRefined_def
      split: option.splits)

text \<open>
  The fold never fails on a state in which the attribute is declared, keeps the
  declarations and \<^verbatim>\<open>maxValuesPerFacet\<close>, and adds exactly the folded values.
\<close>

lemma reduce_refinements_conjunctive:
  "isConjunctiveFacet p a \<Longrightarrow>
   \<exists>p'. reduce_refinements False a vs p = Inr p' \<and> facets p' = facets p \<and>
        disjunctiveFacets p' = disjunctiveFacets p \<and>
        maxValuesPerFacet p' = maxValuesPerFacet p \<and>
        set (getConjunctiveRefinements p' a) = set (getConjunctiveRefinements p a) \<union> set vs"
proof (induction vs arbitrary: p)
  case Nil
  then show ?case by simp
next
  case (Cons v vs)
  from addFacetRefinement_declared [OF Cons.prems, of v]
  obtain q where q: "addFacetRefinement p a v = Inr q" "facets q = facets p"
    "disjunctiveFacets q = disjunctiveFacets p" "maxValuesPerFacet q = maxValuesPerFacet p"
    "set (getConjunctiveRefinements q a) = insert v (set (getConjunctiveRefinements p a))"
    by blast
  have "isConjunctiveFacet q a"
    using Cons.prems q(2) by (simp add: isConjunctiveFacet_def)
  from Cons.IH [OF this] obtain p' where p': "reduce_refinements False a vs q = Inr p'"
    "facets p' = facets q" "disjunctiveFacets p' = disjunctiveFacets q"
    "maxValuesPerFacet p' = maxValuesPerFacet q"
    "set (getConjunctiveRefinements p' a) = set (getConjunctiveRefinements q a) \<union> set vs"
    by blast
  show ?case using q p' by auto
qed

lemma reduce_refinements_disjunctive:
  "isDisjunctiveFacet p a \<Longrightarrow>
   \<exists>p'. reduce_refinements True a vs p = Inr p' \<and> facets p' = facets p \<and>
        disjunctiveFacets p' = disjunctiveFacets p \<and>
        maxValuesPerFacet p' = maxValuesPerFacet p \<and>
        set (getDisjunctiveRefinements p' a) = set (getDisjunctiveRefinements p a) \<union> set vs"
proof (induction vs arbitrary: p)
  case Nil
  then show ?case by simp
next
  case (Cons v vs)
  from addDisjunctiveFacetRefinement_declared [OF Cons.prems, of v]
  obtain q where q: "addDisjunctiveFacetRefinement p a v = Inr q" "facets q = facets p"
    "disjunctiveFacets q = disjunctiveFacets p" "maxValuesPerFacet q = maxValuesPerFacet p"
    "set (getDisjunctiveRefinements q a) = insert v (set (getDisjunctiveRefinements p a))"
    by blast
  have "isDisjunctiveFacet q a"
    using Cons.prems q(3) by (simp add: isDisjunctiveFacet_def)
  from Cons.IH [OF this] obtain p' where p': "reduce_refinements True a vs q = Inr p'"
    "facets p' = facets q" "disjunctiveFacets p' = disjunctiveFacets q"
    "maxValuesPerFacet p' = maxValuesPerFacet q"
    "set (getDisjunctiveRefinements p' a) = set (getDisjunctiveRefinements q a) \<union> set vs"
    by blast
  show ?case using q p' by auto
qed

lemma getWidgetSearchParameters_branches:
  "getWidgetSearchParameters c sp ui =
     (case readValues c ui of
        Undefined \<Rightarrow>
          Inr (if operator c = ''or''
               then setQueryParameters_disjunctiveFacetsRefinements (withMaxValuesPerFacet c sp)
                      ((disjunctiveFacetsRefinements (withMaxValuesPerFacet c sp))
                         (attribute c \<mapsto> []))
               else setQueryParameters_facetsRefinements (withMaxValuesPerFacet c sp)
                      ((facetsRefinements (withMaxValuesPerFacet c sp))(attribute c \<mapsto> [])))
      | Array vs \<Rightarrow>
          reduce_refinements (operator c = ''or'') (attribute c) vs (withMaxValuesPerFacet c sp)
      | Inherited \<Rightarrow> Inl (TypeError ''values.reduce is not a function''))"
  by (auto simp: getWidgetSearchParameters_def withMaxValuesPerFacet_def Let_def
      split: property.splits)

lemma withMaxValuesPerFacet_props:
  "maxValuesPerFacet (withMaxValuesPerFacet c sp) =
     Some (max (case maxValuesPerFacet sp of None \<Rightarrow> 0 | Some m \<Rightarrow> m)
               (if showMore c then showMoreLimit c else limit c))"
  "operator c = ''or'' \<Longrightarrow> isDisjunctiveFacet (withMaxValuesPerFacet c sp) (attribute c)"
  "operator c \<noteq> ''or'' \<Longrightarrow> isConjunctiveFacet (withMaxValuesPerFacet c sp) (attribute c)"
  "facetsRefinements (withMaxValuesPerFacet c sp) (attribute c) = None"
  "disjunctiveFacetsRefinements (withMaxValuesPerFacet c sp) (attribute c) = None"
  by (auto simp: withMaxValuesPerFacet_def Let_def clearRefinements_def addFacet_def
      addDisjunctiveFacet_def setQueryParameter_maxValuesPerFacet_def isConjunctiveFacet_def
      isDisjunctiveFacet_def)

text \<open>
  Unless the read gives an inherited member, \<^verbatim>\<open>getWidgetSearchParameters\<close> returns a
  state; its refinement values on the operator's channel are, as a set, the values the UI
  state holds for the attribute.
\<close>

lemma getWidgetSearchParameters_result:
  assumes "readValues c ui \<noteq> Inherited"
  shows "\<exists>sp'. getWidgetSearchParameters c sp ui = Inr sp' \<and>
           maxValuesPerFacet sp' = maxValuesPerFacet (withMaxValuesPerFacet c sp) \<and>
           set (channelRefinements c sp') = set (valuesOf (readValues c ui))"
proof (cases "readValues c ui")
  case Undefined
  then show ?thesis
    using withMaxValuesPerFacet_props(2,3) [of c sp]
    by (auto simp: getWidgetSearchParameters_branches channelRefinements_def valuesOf_def
        setQueryParameters_facetsRefinements_def
        setQueryParameters_disjunctiveFacetsRefinements_def getConjunctiveRefinements_def
        getDisjunctiveRefinements_def isConjunctiveFacet_def isDisjunctiveFacet_def)
next
  case Inherited
  with assms show ?thesis by simp
next
  case (Array vs)
  show ?thesis
  proof (cases "operator c = ''or''")
    case True
    from reduce_refinements_disjunctive
      [OF withMaxValuesPerFacet_props(2) [OF True], where vs = vs]
    obtain p' where p':
      "reduce_refinements True (attribute c) vs (withMaxValuesPerFacet c sp) = Inr p'"
      "maxValuesPerFacet p' = maxValuesPerFacet (withMaxValuesPerFacet c sp)"
      "set (getDisjunctiveRefinements p' (attribute c)) =
         set (getDisjunctiveRefinements (withMaxValuesPerFacet c sp) (attribute c)) \<union> set vs"
      by blast
    have "getDisjunctiveRefinements (withMaxValuesPerFacet c sp) (attribute c) = []"
      using withMaxValuesPerFacet_props(5) [of c sp] by (simp add: getDisjunctiveRefinements_def)
    with p' Array True show ?thesis
      by (simp add: getWidgetSearchParameters_branches channelRefinements_def valuesOf_def)
  next
    case False
    from reduce_refinements_conjunctive
      [OF withMaxValuesPerFacet_props(3) [OF False], where vs = vs]
    obtain p' where p':
      "reduce_refinements False (attribute c) vs (withMaxValuesPerFacet c sp) = Inr p'"
      "maxValuesPerFacet p' = maxValuesPerFacet (withMaxValuesPerFacet c sp)"
      "set (getConjunctiveRefinements p' (attribute c)) =
         set (getConjunctiveRefinements (withMaxValuesPerFacet c sp) (attribute c)) \<union> set vs"
      by blast
    have "getConjunctiveRefinements (withMaxValuesPerFacet c sp) (attribute c) = []"
      using withMaxValuesPerFacet_props(4) [of c sp] by (simp add: getConjunctiveRefinements_def)
    with p' Array False show ?thesis
      by (simp add: getWidgetSearchParameters_branches channelRefinements_def valuesOf_def)
  qed
qed

text \<open>The read gives an inherited member exactly when the call raises the type error.\<close>

lemma getWidgetSearchParameters_throws_iff:
  "isl (getWidgetSearchParameters c sp ui) \<longleftrightarrow> readValues c ui = Inherited"
proof (cases "readValues c ui = Inherited")
  case True
  then show ?thesis by (simp add: getWidgetSearchParameters_branches)
next
  case False
  from getWidgetSearchParameters_result [OF False, of sp] False show ?thesis by auto
qed

text \<open>
  What \<^verbatim>\<open>getWidgetState\<close> leaves for the read: the channel's values when there are some,
  the input UI state's own entry otherwise.
\<close>

lemma readValues_getWidgetState:
  "readValues c (getWidgetState c ui sp) =
     (if channelRefinements c sp = [] then readValues c ui
      else Array (channelRefinements c sp))"
  by (cases "operator c = ''or''")
     (auto simp: getWidgetState_def channelRefinements_def readValues_def getProperty_def
        Let_def split: option.splits)

text \<open>
  Where the call returns, \<^verbatim>\<open>maxValuesPerFacet\<close> of the result is the maximum of the input's
  value (0 if unset) and the widget's limit, and a second call leaves it as it is.
\<close>

lemma getWidgetSearchParameters_maxValuesPerFacet:
  assumes "readValues c ui \<noteq> Inherited"
  shows "\<exists>sp' sp'' n. getWidgetSearchParameters c sp ui = Inr sp' \<and>
      maxValuesPerFacet sp' = Some n \<and>
      n = max (case maxValuesPerFacet sp of None \<Rightarrow> 0 | Some m \<Rightarrow> m)
              (if showMore c then showMoreLimit c else limit c) \<and>
      (case maxValuesPerFacet sp of None \<Rightarrow> 0 | Some m \<Rightarrow> m) \<le> n \<and>
      getWidgetSearchParameters c sp' ui = Inr sp'' \<and>
      maxValuesPerFacet sp'' = maxValuesPerFacet sp'"
proof -
  from getWidgetSearchParameters_result [OF assms, of sp]
  obtain sp' where 1: "getWidgetSearchParameters c sp ui = Inr sp'"
    "maxValuesPerFacet sp' = maxValuesPerFacet (withMaxValuesPerFacet c sp)" by blast
  from getWidgetSearchParameters_result [OF assms, of sp']
  obtain sp'' where 2: "getWidgetSearchParameters c sp' ui = Inr sp''"
    "maxValuesPerFacet sp'' = maxValuesPerFacet (withMaxValuesPerFacet c sp')" by blast
  show ?thesis using 1 2 by (auto simp: withMaxValuesPerFacet_props(1))
qed

text \<open>
  An empty array takes the fold branch, which returns the state built before the branch,
  with no entry for the attribute; \<^verbatim>\<open>undefined\<close> takes the reset branch, which writes an
  explicit empty array.
\<close>

lemma getWidgetSearchParameters_empty_array:
  "(readValues c ui = Array [] \<longrightarrow>
      getWidgetSearchParameters c sp ui = Inr (withMaxValuesPerFacet c sp) \<and>
      channelRefinements c (withMaxValuesPerFacet c sp) = [] \<and>
      channelRefinementsMap c (withMaxValuesPerFacet c sp) (attribute c) = None) \<and>
   (readValues c ui = Undefined \<longrightarrow>
      (\<exists>sp'. getWidgetSearchParameters c sp ui = Inr sp' \<and>
             channelRefinements c sp' = [] \<and>
             channelRefinementsMap c sp' (attribute c) = Some []))"
  using withMaxValuesPerFacet_props(2-5) [of c sp]
  by (auto simp: getWidgetSearchParameters_branches channelRefinements_def
        channelRefinementsMap_def setQueryParameters_facetsRefinements_def
        setQueryParameters_disjunctiveFacetsRefinements_def getConjunctiveRefinements_def
        getDisjunctiveRefinements_def isConjunctiveFacet_def isDisjunctiveFacet_def)

text \<open>
  With no refinement in the query state and a non-empty array already in the UI state, the
  round trip returns the UI state's values, not the (empty) original set.
\<close>

lemma roundtrip_stale_values:
  assumes "channelRefinements c sp = []" and "readValues c ui = Array (v # vs)"
  shows "\<exists>sp''. getWidgetSearchParameters c sp' (getWidgetState c ui sp) = Inr sp'' \<and>
           set (channelRefinements c sp'') = set (v # vs) \<and>
           set (channelRefinements c sp'') \<noteq> set (channelRefinements c sp)"
proof -
  have r: "readValues c (getWidgetState c ui sp) = Array (v # vs)"
    using assms by (simp add: readValues_getWidgetState)
  then have "readValues c (getWidgetState c ui sp) \<noteq> Inherited" by simp
  from getWidgetSearchParameters_result [OF this, of sp'] r assms(1)
  show ?thesis by (auto simp: valuesOf_def)
qed

section \<open>Claims\<close>

subsection \<open>Exhaustiveness after a primary render\<close>

text \<open>
  Claim C1. After a primary render (the widget's \<^verbatim>\<open>render\<close> method) the exhaustiveness
  flag, in the widget and in the payload it hands to the rendering callback, is: if the
  query state's \<^verbatim>\<open>maxValuesPerFacet\<close> is set and strictly greater than the current
  limit, then whether the number of facet values returned is at most the current limit,
  otherwise whether it is strictly below the current limit. In particular, at a current
  limit of 2, three returned values and a \<^verbatim>\<open>maxValuesPerFacet\<close> that is unset or at most
  2 give \<open>False\<close>, and one returned value gives \<open>True\<close>.
\<close>

theorem widget_render_hasExhaustiveItems:
  "hasExhaustiveItems (widget_render c ro w) =
     (if (\<exists>m. maxValuesPerFacet (state ro) = Some m \<and> getCurrentLimit c w < m)
      then int (length (facetValuesOf c ro)) \<le> getCurrentLimit c w
      else int (length (facetValuesOf c ro)) < getCurrentLimit c w) \<and>
   (\<exists>p. last (events (widget_render c ro w)) = RenderFn p False \<and>
        p_hasExhaustiveItems p = hasExhaustiveItems (widget_render c ro w)) \<and>
   (getCurrentLimit c w = 2 \<and> length (facetValuesOf c ro) = 3 \<and>
      (case maxValuesPerFacet (state ro) of None \<Rightarrow> True | Some m \<Rightarrow> m \<le> 2)
      \<longrightarrow> \<not> hasExhaustiveItems (widget_render c ro w)) \<and>
   (getCurrentLimit c w = 2 \<and> length (facetValuesOf c ro) = 1
      \<longrightarrow> hasExhaustiveItems (widget_render c ro w))"
  by (auto simp: widget_render_def Let_def render_def setToggleShowMore_def getCurrentLimit_def
      js_gt_def split: option.splits)

theorem widget_render_hasExhaustiveItems_witness:
  "getCurrentLimit scenario_connector newWidget = 2 \<and>
   length (facetValuesOf scenario_connector (capped_renderOptions scenario_facetValues)) = 3 \<and>
   maxValuesPerFacet (state (capped_renderOptions scenario_facetValues)) = Some 2 \<and>
   \<not> hasExhaustiveItems
       (widget_render scenario_connector (capped_renderOptions scenario_facetValues) newWidget) \<and>
   length (facetValuesOf scenario_connector (capped_renderOptions [hd scenario_facetValues])) = 1 \<and>
   hasExhaustiveItems
     (widget_render scenario_connector (capped_renderOptions [hd scenario_facetValues]) newWidget)"
  using widget_render_hasExhaustiveItems
          [of scenario_connector "capped_renderOptions scenario_facetValues" newWidget]
        widget_render_hasExhaustiveItems
          [of scenario_connector "capped_renderOptions [hd scenario_facetValues]" newWidget]
  by (simp add: scenario_defs getCurrentLimit_def newWidget_def facetValuesOf_def)

subsection \<open>Round trip between query state and UI state\<close>

text \<open>
  Claim C2, as stated: for every query state (and UI state), \<^verbatim>\<open>getWidgetState\<close> followed
  by \<^verbatim>\<open>getWidgetSearchParameters\<close> on the resulting UI state gives back the original
  refinement value set of the attribute. This fails when the query state has no refinement
  for the attribute and the UI state already holds values for it: \<^verbatim>\<open>getWidgetState\<close>
  returns the UI state unchanged, and the round trip yields the UI state's values.
\<close>

theorem roundtrip_stale_uiState_counterexample:
  "channelRefinements scenario_connector unrefined_state = [] \<and>
   map_sum id (channelRefinements scenario_connector)
     (getWidgetSearchParameters scenario_connector unrefined_state
        (getWidgetState scenario_connector stale_uiState unrefined_state)) = Inr [''Apple'']"
  by (simp add: channelRefinements_def getWidgetState_def getWidgetSearchParameters_def
      state_defs scenario_defs helper_defs read_defs Let_def)

text \<open>
  Claim C2, amended. For every query state and every UI state such that the query state's
  refinement values for the attribute (on the channel selected by the operator) are not
  empty, or the UI state's \<^verbatim>\<open>refinementList\<close> read at the attribute gives \<^verbatim>\<open>undefined\<close>
  or an empty array: \<^verbatim>\<open>getWidgetState\<close> followed by \<^verbatim>\<open>getWidgetSearchParameters\<close>
  (applied to any query state) returns a query state whose refinement value set for the
  attribute on that channel equals, as a set, the original one.
\<close>

theorem roundtrip_refinements:
  assumes "channelRefinements c sp \<noteq> [] \<or> readValues c ui = Undefined \<or>
           readValues c ui = Array []"
  shows "\<exists>sp''. getWidgetSearchParameters c sp' (getWidgetState c ui sp) = Inr sp'' \<and>
           set (channelRefinements c sp'') = set (channelRefinements c sp)"
proof -
  have r: "readValues c (getWidgetState c ui sp) \<noteq> Inherited"
    using assms by (auto simp: readValues_getWidgetState)
  have "set (valuesOf (readValues c (getWidgetState c ui sp))) = set (channelRefinements c sp)"
    using assms by (auto simp: readValues_getWidgetState valuesOf_def)
  with getWidgetSearchParameters_result [OF r, of sp'] show ?thesis by auto
qed

theorem roundtrip_refinements_witness:
  "channelRefinements scenario_connector refined_state \<noteq> [] \<and>
   (\<exists>sp''. getWidgetSearchParameters scenario_connector refined_state
             (getWidgetState scenario_connector stale_uiState refined_state) = Inr sp'' \<and>
           set (channelRefinements scenario_connector sp'') = {''Apple'', ''Sony''}) \<and>
   readValues scenario_connector empty_uiState = Undefined \<and>
   (\<exists>sp''. getWidgetSearchParameters scenario_connector unrefined_state
             (getWidgetState scenario_connector empty_uiState unrefined_state) = Inr sp'' \<and>
           set (channelRefinements scenario_connector sp'') = {}) \<and>
   readValues scenario_connector cleared_uiState = Array [] \<and>
   (\<exists>sp''. getWidgetSearchParameters scenario_connector unrefined_state
             (getWidgetState scenario_connector cleared_uiState unrefined_state) = Inr sp'' \<and>
           set (channelRefinements scenario_connector sp'') = {})"
proof -
  have 1: "channelRefinements scenario_connector refined_state = [''Apple'', ''Sony'']"
    by (simp add: channelRefinements_def state_defs scenario_defs helper_defs)
  have 2: "channelRefinements scenario_connector unrefined_state = []"
    by (simp add: channelRefinements_def state_defs scenario_defs helper_defs)
  have 3: "readValues scenario_connector empty_uiState = Undefined"
    by (simp add: read_defs state_defs)
  have 4: "readValues scenario_connector cleared_uiState = Array []"
    by (simp add: read_defs state_defs scenario_defs)
  show ?thesis
    using roundtrip_refinements
            [of scenario_connector refined_state stale_uiState refined_state]
          roundtrip_refinements
            [of scenario_connector unrefined_state empty_uiState unrefined_state]
          roundtrip_refinements
            [of scenario_connector unrefined_state cleared_uiState unrefined_state]
          1 2 3 4
    by simp
qed

subsection \<open>Monotone, idempotent write of the facet count budget\<close>

text \<open>
  Claim C3 says that for every input \<^verbatim>\<open>getWidgetSearchParameters\<close> yields a state whose
  \<^verbatim>\<open>maxValuesPerFacet\<close> is the maximum of the input's value (0 if unset) and the widget's
  limit. The widget on the attribute \<^verbatim>\<open>constructor\<close> is accepted by the validation, and
  on a UI state whose \<^verbatim>\<open>refinementList\<close> object has no own key the read of the attribute
  gives the inherited member: the call computes the maximum (10 against the input's 7) and
  then raises a type error instead of returning the state that carries it.
\<close>

theorem getWidgetSearchParameters_constructor_no_maxValuesPerFacet:
  "connectRefinementList constructor_widgetParams = Inr constructor_connector \<and>
   maxValuesPerFacet (withMaxValuesPerFacet constructor_connector refined_state) = Some 10 \<and>
   map_sum id maxValuesPerFacet
     (getWidgetSearchParameters constructor_connector refined_state keyless_uiState) =
     Inl (TypeError ''values.reduce is not a function'')"
  by (simp add: connectRefinementList_def falsy_def operator_matches_def
      getWidgetSearchParameters_def withMaxValuesPerFacet_def state_defs scenario_defs
      helper_defs read_defs Let_def)

subsection \<open>Validation of the widget parameters\<close>

text \<open>
  Claim C4. Constructing the widget fails with a configuration error exactly when the
  attribute is falsy (missing or empty), or the operator (\<^verbatim>\<open>or\<close> when missing) is neither
  \<^verbatim>\<open>and\<close> nor \<^verbatim>\<open>or\<close>, or \<^verbatim>\<open>showMore\<close> is true and \<^verbatim>\<open>showMoreLimit <= limit\<close> (with the
  defaults 20 and 10). The check is a pure function of the parameters, and when none of the
  conditions holds construction succeeds with the destructured parameters.
\<close>

theorem connectRefinementList_throws_iff:
  "(isl (connectRefinementList wp) \<longleftrightarrow>
      (wp_attribute wp = None \<or> wp_attribute wp = Some [] \<or>
       (withDefault (wp_operator wp) ''or'' \<noteq> ''and'' \<and>
        withDefault (wp_operator wp) ''or'' \<noteq> ''or'') \<or>
       (withDefault (wp_showMore wp) False \<and>
        withDefault (wp_showMoreLimit wp) 20 \<le> withDefault (wp_limit wp) 10))) \<and>
   (\<not> isl (connectRefinementList wp) \<longleftrightarrow>
      connectRefinementList wp = Inr (destructure wp))"
  by (auto simp: connectRefinementList_def Let_def falsy_def operator_matches_def
      destructure_def split: option.splits)

theorem connectRefinementList_throws_iff_witness:
  "connectRefinementList scenario_widgetParams = Inr scenario_connector \<and>
   isl (connectRefinementList (scenario_widgetParams\<lparr>wp_attribute := None\<rparr>)) \<and>
   isl (connectRefinementList (scenario_widgetParams\<lparr>wp_operator := Some ''xor''\<rparr>)) \<and>
   isl (connectRefinementList (scenario_widgetParams\<lparr>wp_showMoreLimit := Some 2\<rparr>))"
  using connectRefinementList_throws_iff [of scenario_widgetParams]
        connectRefinementList_throws_iff [of "scenario_widgetParams\<lparr>wp_attribute := None\<rparr>"]
        connectRefinementList_throws_iff [of "scenario_widgetParams\<lparr>wp_operator := Some ''xor''\<rparr>"]
        connectRefinementList_throws_iff [of "scenario_widgetParams\<lparr>wp_showMoreLimit := Some 2\<rparr>"]
  by (auto simp: scenario_defs)

subsection \<open>Searching for items\<close>

text \<open>
  Claim C5. \<^verbatim>\<open>searchForItems\<close> with the empty query calls the rendering callback once,
  with exactly the cached item sequence of the last primary search and
  \<^verbatim>\<open>isFromSearch = false\<close>, and issues no sub-search; the cache is what the last primary
  render displayed, and neither \<^verbatim>\<open>searchForItems\<close> nor the arrival of sub-search hits
  changes it. With a non-empty query it does nothing but issue one
  \<^verbatim>\<open>searchForFacetValues\<close> call with the attribute, the query, the current limit and
  the tags (the placeholder tags when escaping is on, the replacement tags otherwise).
\<close>

theorem searchForItems_empty_query_or_one_call:
  "(\<exists>p. searchForItems c eh [] w = w\<lparr>events := events w @ [RenderFn p False]\<rparr> \<and>
        p_items p = lastResultsFromMainSearch w \<and> \<not> p_isFromSearch p) \<and>
   (\<exists>p. last (events (widget_render c ro w)) = RenderFn p False \<and>
        p_items p = lastResultsFromMainSearch (widget_render c ro w)) \<and>
   lastResultsFromMainSearch (searchForFacetValues_then c eh hits w) = lastResultsFromMainSearch w \<and>
   lastResultsFromMainSearch (searchForItems c eh query w) = lastResultsFromMainSearch w \<and>
   (query \<noteq> [] \<longrightarrow>
      searchForItems c eh query w =
        w\<lparr>events := events w @
             [SearchForFacetValues (attribute c) query (getCurrentLimit c w)
                (if escapeFacetValues c then TAG_PLACEHOLDER eh else TAG_REPLACEMENT eh)]\<rparr>)"
  by (auto simp: searchForItems_def searchForFacetValues_then_def render_def widget_render_def
      Let_def)

theorem searchForItems_empty_query_or_one_call_witness:
  "''app'' \<noteq> [] \<and>
   events (searchForItems scenario_connector example_escapeHighlight ''app'' scenario_rendered) =
     events scenario_rendered @
       [SearchForFacetValues ''brand'' ''app'' 2
          \<lparr>highlightPreTag = ''__ais-highlight__'', highlightPostTag = ''__/ais-highlight__''\<rparr>]"
  using searchForItems_empty_query_or_one_call
          [of scenario_connector example_escapeHighlight scenario_rendered
              scenario_renderOptions "[]" "''app''"]
  by (simp add: scenario_defs example_escapeHighlight_def widget_defs)

subsection \<open>The show-more capability\<close>

text \<open>
  Claim C6. The payload of every call of the rendering callback has
  \<^verbatim>\<open>canToggleShowMore = canShowMore || canShowLess\<close>, where \<^verbatim>\<open>canShowMore\<close> is
  \<^verbatim>\<open>showMore\<close> and not \<^verbatim>\<open>isFromSearch\<close> and not exhaustive, and \<^verbatim>\<open>canShowLess\<close> is
  \<^verbatim>\<open>isShowingMore\<close> and more cached primary-search items than \<^verbatim>\<open>limit\<close>. In the scenario
  (three facet values, \<^verbatim>\<open>limit = 2\<close>, \<^verbatim>\<open>showMore = true\<close>, \<^verbatim>\<open>showMoreLimit = 5\<close>) the
  first render shows two items, and after \<^verbatim>\<open>toggleShowMore\<close> the render shows the three
  items with \<^verbatim>\<open>isShowingMore = true\<close> and \<^verbatim>\<open>canShowLess = true\<close>.
\<close>

theorem render_canToggleShowMore:
  "(\<exists>p. events (render c items isFromSearch isFirstSearch w) =
          events w @ [RenderFn p isFirstSearch] \<and>
        p_canToggleShowMore p = (canShowMore c isFromSearch w \<or> canShowLess c w) \<and>
        p_isShowingMore p = getIsShowingMore w) \<and>
   canShowMore c isFromSearch w =
     (showMore c \<and> \<not> isFromSearch \<and> \<not> hasExhaustiveItems w) \<and>
   canShowLess c w =
     (getIsShowingMore w \<and> limit c < int (length (lastResultsFromMainSearch w))) \<and>
   connectRefinementList scenario_widgetParams = Inr scenario_connector \<and>
   (\<exists>p. last (events scenario_rendered) = RenderFn p False \<and>
        map item_value (p_items p) = [''Apple'', ''Samsung''] \<and> \<not> p_isShowingMore p) \<and>
   (\<exists>p. last (events scenario_toggled) = RenderFn p False \<and>
        map item_value (p_items p) = [''Apple'', ''Samsung'', ''Sony''] \<and>
        p_isShowingMore p \<and> p_canToggleShowMore p) \<and>
   canShowLess scenario_connector scenario_toggled"
proof -
  have general:
    "\<exists>p. events (render c items isFromSearch isFirstSearch w) =
            events w @ [RenderFn p isFirstSearch] \<and>
          p_canToggleShowMore p = (canShowMore c isFromSearch w \<or> canShowLess c w) \<and>
          p_isShowingMore p = getIsShowingMore w"
    by (auto simp: render_def Let_def)
  have constructed: "connectRefinementList scenario_widgetParams = Inr scenario_connector"
    by (simp add: connectRefinementList_def scenario_defs falsy_def operator_matches_def)
  have first:
    "\<exists>p. last (events scenario_rendered) = RenderFn p False \<and>
         map item_value (p_items p) = [''Apple'', ''Samsung''] \<and> \<not> p_isShowingMore p"
    by (simp add: widget_defs scenario_defs)
  have second:
    "\<exists>p. last (events scenario_toggled) = RenderFn p False \<and>
         map item_value (p_items p) = [''Apple'', ''Samsung'', ''Sony''] \<and>
         p_isShowingMore p \<and> p_canToggleShowMore p"
    by (simp add: widget_defs scenario_defs)
  have less: "canShowLess scenario_connector scenario_toggled"
    by (simp add: widget_defs scenario_defs)
  show ?thesis
    using general constructed first second less
    by (simp add: canShowMore_def canShowLess_def)
qed

theorem render_canToggleShowMore_witness:
  "\<exists>p. events (render scenario_connector [] False True newWidget) = [RenderFn p True] \<and>
       \<not> p_canToggleShowMore p \<and> \<not> p_isShowingMore p"
  using render_canToggleShowMore [of scenario_connector "[]" False True newWidget]
  by (simp add: widget_defs scenario_defs)

subsection \<open>The frame of getWidgetState\<close>

text \<open>
  Claim C7. If the query state's refinement values for the attribute (on the channel
  selected by the operator) are empty, \<^verbatim>\<open>getWidgetState\<close> returns the UI state
  unchanged. Otherwise it returns the UI state with \<^verbatim>\<open>refinementList[attribute]\<close> set to
  those values; the entries of the other attributes under \<^verbatim>\<open>refinementList\<close>, the
  \<^verbatim>\<open>configure\<close> entry and every other entry of the UI state are unchanged.
\<close>

theorem getWidgetState_frame:
  "(channelRefinements c sp = [] \<longrightarrow> getWidgetState c ui sp = ui) \<and>
   (channelRefinements c sp \<noteq> [] \<longrightarrow>
      (\<exists>m. refinementList (getWidgetState c ui sp) = Some m \<and>
           m (attribute c) = Some (channelRefinements c sp) \<and>
           (\<forall>a. a \<noteq> attribute c \<longrightarrow>
                m a = (case refinementList ui of None \<Rightarrow> None | Some m0 \<Rightarrow> m0 a))) \<and>
      configure (getWidgetState c ui sp) = configure ui \<and>
      UiState.more (getWidgetState c ui sp) = UiState.more ui)"
  by (auto simp: getWidgetState_def channelRefinements_def Let_def split: option.splits)

theorem getWidgetState_frame_witness:
  "channelRefinements scenario_connector unrefined_state = [] \<and>
   getWidgetState scenario_connector other_uiState unrefined_state = other_uiState \<and>
   channelRefinements scenario_connector refined_state = [''Apple'', ''Sony''] \<and>
   (\<exists>m. refinementList (getWidgetState scenario_connector other_uiState refined_state) = Some m \<and>
        m ''brand'' = Some [''Apple'', ''Sony''] \<and> m ''color'' = Some [''red'']) \<and>
   configure (getWidgetState scenario_connector other_uiState refined_state) =
     configure other_uiState"
proof -
  have 1: "channelRefinements scenario_connector unrefined_state = []"
    by (simp add: channelRefinements_def state_defs scenario_defs helper_defs)
  have 2: "channelRefinements scenario_connector refined_state = [''Apple'', ''Sony'']"
    by (simp add: channelRefinements_def state_defs scenario_defs helper_defs)
  have 3: "attribute scenario_connector = ''brand''"
    by (simp add: scenario_defs)
  have 4: "refinementList other_uiState = Some [''color'' \<mapsto> [''red'']]"
    by (simp add: state_defs)
  show ?thesis
    using getWidgetState_frame [of scenario_connector unrefined_state other_uiState]
          getWidgetState_frame [of scenario_connector refined_state other_uiState]
          1 2 3 4
    by auto
qed

subsection \<open>Teardown\<close>

text \<open>
  Claim C8. For every query state, \<^verbatim>\<open>dispose\<close> calls the unmount hook and returns a
  state: with operator \<^verbatim>\<open>and\<close>, \<^verbatim>\<open>maxValuesPerFacet\<close> is unset, the attribute is not
  among the conjunctive facets and the disjunctive facets are as before; with operator
  \<^verbatim>\<open>or\<close>, symmetrically. When the attribute was never registered on the operator's
  channel, the result is the input state with \<^verbatim>\<open>maxValuesPerFacet\<close> unset.
\<close>

theorem dispose_removes_contributions:
  "events (snd (dispose c st w)) = events w @ [UnmountFn] \<and>
   maxValuesPerFacet (fst (dispose c st w)) = None \<and>
   (operator c = ''and'' \<longrightarrow>
      attribute c \<notin> set (facets (fst (dispose c st w))) \<and>
      disjunctiveFacets (fst (dispose c st w)) = disjunctiveFacets st \<and>
      (attribute c \<notin> set (facets st) \<longrightarrow>
         fst (dispose c st w) = st\<lparr>maxValuesPerFacet := None\<rparr>)) \<and>
   (operator c = ''or'' \<longrightarrow>
      attribute c \<notin> set (disjunctiveFacets (fst (dispose c st w))) \<and>
      facets (fst (dispose c st w)) = facets st \<and>
      (attribute c \<notin> set (disjunctiveFacets st) \<longrightarrow>
         fst (dispose c st w) = st\<lparr>maxValuesPerFacet := None\<rparr>))"
  by (auto simp: dispose_def Let_def removeFacet_def removeDisjunctiveFacet_def
      clearRefinements_def setQueryParameter_maxValuesPerFacet_def isConjunctiveFacet_def
      isDisjunctiveFacet_def)

theorem dispose_removes_contributions_witness:
  "operator and_connector = ''and'' \<and> attribute and_connector \<notin> set (facets scenario_state) \<and>
   fst (dispose and_connector scenario_state newWidget) =
     scenario_state\<lparr>maxValuesPerFacet := None\<rparr> \<and>
   disjunctiveFacets (fst (dispose and_connector scenario_state newWidget)) = [''brand''] \<and>
   operator scenario_connector = ''or'' \<and>
   maxValuesPerFacet (fst (dispose scenario_connector refined_state newWidget)) = None \<and>
   disjunctiveFacets (fst (dispose scenario_connector refined_state newWidget)) = [] \<and>
   facets (fst (dispose scenario_connector refined_state newWidget)) = [''color'']"
proof -
  have 1: "operator and_connector = ''and''" "attribute and_connector = ''brand''"
    "operator scenario_connector = ''or''" "attribute scenario_connector = ''brand''"
    by (simp_all add: scenario_defs)
  have 2: "facets scenario_state = []" "disjunctiveFacets scenario_state = [''brand'']"
    "facets refined_state = [''color'']"
    by (simp_all add: scenario_defs state_defs)
  have 3: "disjunctiveFacets (fst (dispose scenario_connector refined_state newWidget)) = []"
    by (simp add: dispose_def scenario_defs state_defs helper_defs)
  show ?thesis
    using dispose_removes_contributions [of and_connector scenario_state newWidget]
          dispose_removes_contributions [of scenario_connector refined_state newWidget]
          1 2 3
    by simp
qed

subsection \<open>Precedence in the configure connector\<close>

text \<open>
  Claim C9. In the configure connector, for every key present both in the stored widget
  parameters and in \<^verbatim>\<open>uiState.configure\<close>, the stored widget parameter's value takes
  precedence: \<^verbatim>\<open>getWidgetState\<close> writes it into \<^verbatim>\<open>uiState.configure\<close> in place of the
  existing value, and \<^verbatim>\<open>getWidgetSearchParameters\<close> merges into the query state a
  parameter object that holds it in place of the \<^verbatim>\<open>uiState.configure\<close> value.
\<close>

theorem configure_widgetParams_precedence:
  assumes "searchParameters widgetParams k = Some v"
    and "configure uiState = Some m"
    and "m k = Some v'"
  shows "\<exists>m'. m' k = Some v \<and>
           configure (configure_getWidgetState widgetParams uiState) = Some m' \<and>
           configure_getWidgetSearchParameters mergeSearchParameters newSearchParameters
             widgetParams st uiState =
             mergeSearchParameters st (newSearchParameters m')"
  using assms
  by (simp add: configure_getWidgetState_def configure_getWidgetSearchParameters_def
      configure_spread_def)

theorem configure_widgetParams_precedence_witness:
  "searchParameters example_configureParams ''hitsPerPage'' = Some ''20'' \<and>
   configure other_uiState = Some [''hitsPerPage'' \<mapsto> ''5''] \<and>
   [''hitsPerPage'' \<mapsto> ''5''] ''hitsPerPage'' = Some ''5'' \<and>
   (\<exists>m'. m' ''hitsPerPage'' = Some ''20'' \<and>
         configure (configure_getWidgetState example_configureParams other_uiState) = Some m' \<and>
         configure_getWidgetSearchParameters (\<lambda>st p. st ++ p) (\<lambda>obj. obj)
           example_configureParams Map.empty other_uiState = Map.empty ++ m')"
proof -
  have 1: "searchParameters example_configureParams ''hitsPerPage'' = Some ''20''"
    by (simp add: example_configureParams_def)
  have 2: "configure other_uiState = Some [''hitsPerPage'' \<mapsto> ''5'']"
    by (simp add: state_defs)
  have 3: "[''hitsPerPage'' \<mapsto> ''5''] ''hitsPerPage'' = Some ''5''"
    by simp
  from configure_widgetParams_precedence
         [OF 1 2 3, of "\<lambda>st p. st ++ p" "\<lambda>obj. obj" Map.empty]
  show ?thesis using 1 2 3 by simp
qed

subsection \<open>An empty value array in the UI state\<close>


end
